theory Spec2Isabelle
  imports Main
begin

section \<open>JavaScript truthiness of \<open>string | null\<close>\<close>

text \<open>
  The client tests tokens and messages with \<open>!x\<close>, \<open>!!x\<close>, \<open>x && y\<close> and \<open>x || y\<close>.
  For a value of type \<open>string | null | undefined\<close> the test succeeds exactly on a
  non-empty string: \<open>null\<close>, \<open>undefined\<close> (both \<open>None\<close> here) and \<open>""\<close> are falsy.
\<close>

fun truthy :: "string option \<Rightarrow> bool" where
  "truthy None = False"
| "truthy (Some s) = (s \<noteq> [])"

text \<open>\<open>a || b\<close>: the left operand when it is truthy, the right operand otherwise.\<close>

definition or_else :: "string option \<Rightarrow> string option \<Rightarrow> string option" where
  "or_else a b = (if truthy a then a else b)"

section \<open>Token store (\<open>tokenManager\<close> over \<open>localStorage\<close>)\<close>

type_synonym storage = "string \<rightharpoonup> string"

definition TOKEN_STORAGE_KEY :: string where
  "TOKEN_STORAGE_KEY = ''auth_token''"

definition REFRESH_TOKEN_STORAGE_KEY :: string where
  "REFRESH_TOKEN_STORAGE_KEY = ''refresh_token''"

text \<open>\<open>localStorage.getItem\<close> returns \<open>null\<close> for a key without an entry.\<close>

definition getToken :: "storage \<Rightarrow> string option" where
  "getToken ls = ls TOKEN_STORAGE_KEY"

definition setToken :: "string \<Rightarrow> storage \<Rightarrow> storage" where
  "setToken t ls = ls(TOKEN_STORAGE_KEY \<mapsto> t)"

definition getRefreshToken :: "storage \<Rightarrow> string option" where
  "getRefreshToken ls = ls REFRESH_TOKEN_STORAGE_KEY"

definition setRefreshToken :: "string \<Rightarrow> storage \<Rightarrow> storage" where
  "setRefreshToken t ls = ls(REFRESH_TOKEN_STORAGE_KEY \<mapsto> t)"

definition clearTokens :: "storage \<Rightarrow> storage" where
  "clearTokens ls = (ls(TOKEN_STORAGE_KEY := None))(REFRESH_TOKEN_STORAGE_KEY := None)"

text \<open>\<open>hasToken: () => !!tokenManager.getToken()\<close>\<close>

definition hasToken :: "storage \<Rightarrow> bool" where
  "hasToken ls = truthy (getToken ls)"

text \<open>\<open>isAuthenticated = () => tokenManager.hasToken()\<close>\<close>

definition isAuthenticated :: "storage \<Rightarrow> bool" where
  "isAuthenticated ls = hasToken ls"

section \<open>Query client defaults (\<open>queryClient.ts\<close>)\<close>

text \<open>
  Times are in milliseconds. \<open>attemptIndex\<close> is the library's failure count, a
  non-negative integer, so \<open>Math.min(1000 * 2 ** attemptIndex, 30000)\<close> is computed on
  naturals (where the floating-point power overflows to \<open>Infinity\<close> the minimum is
  30000 as well).
\<close>

record retry_options =
  retry :: nat
  retryDelay :: "nat \<Rightarrow> nat"

record query_options = retry_options +
  staleTime :: nat
  gcTime :: nat
  refetchOnWindowFocus :: bool
  refetchOnReconnect :: bool
  refetchOnMount :: bool

record default_options =
  queries :: query_options
  mutations :: retry_options

definition defaultOptions :: default_options where
  "defaultOptions =
     \<lparr> queries =
         \<lparr> retry = 1,
           retryDelay = (\<lambda>attemptIndex. min (1000 * 2 ^ attemptIndex) 30000),
           staleTime = 60 * 1000,
           gcTime = 5 * 60 * 1000,
           refetchOnWindowFocus = False,
           refetchOnReconnect = True,
           refetchOnMount = True \<rparr>,
       mutations =
         \<lparr> retry = 0,
           retryDelay = (\<lambda>attemptIndex. min (1000 * 2 ^ attemptIndex) 30000) \<rparr> \<rparr>"

section \<open>Requests, errors and observable effects\<close>

text \<open>
  A request configuration (\<open>InternalAxiosRequestConfig & { _retry?: boolean }\<close>).
  \<open>headers\<close> is a required member of \<open>InternalAxiosRequestConfig\<close>, so the tests
  \<open>config.headers\<close> and \<open>originalRequest.headers\<close> of the source always succeed and are
  not branches of the model. \<open>retry_mark\<close> is the \<open>_retry\<close> property: absent
  (\<open>undefined\<close>) and \<open>false\<close> are both \<open>False\<close>.
\<close>

record request_config =
  url :: string
  headers :: "string \<rightharpoonup> string"
  retry_mark :: bool

text \<open>The body of an error response, \<open>{ message?: string; error?: string }\<close>.\<close>

record error_body =
  body_message :: "string option"
  body_error :: "string option"

record error_response =
  resp_status :: nat
  resp_data :: "error_body option"

text \<open>
  An \<open>AxiosError\<close>: \<open>response\<close> is absent for a failure without an HTTP response
  (network error, timeout).
\<close>

record axios_error =
  err_message :: string
  err_code :: "string option"
  err_response :: "error_response option"
  err_config :: request_config

text \<open>
  The outcome of the refresh call. A successful response carries the data of the
  refresh endpoint, \<open>{ token, refreshToken? }\<close> with a string \<open>token\<close>, which the
  handler destructures; a failed call rejects with an Axios error. A response whose
  data has no \<open>token\<close> member is not a value of this type: what the handler does
  with \<open>undefined\<close> there is outside the model.
\<close>

record refresh_data =
  token :: string
  refreshToken :: "string option"

datatype refresh_result = RefreshOk refresh_data | RefreshFailed axios_error

text \<open>
  What the client does to the outside, in the order it does it. A deferred completion
  of \<open>failedQueue\<close> is identified by the request its \<open>.then\<close> callback re-issues.
  \<open>Dispatch\<close> records the configuration that leaves the request interceptor and is
  handed to the transport, with the header values as the client set them. What the
  transport makes of a header value on the wire (HTTP drops the whitespace around a
  field value, so \<open>Bearer\<close> followed by a blank and an empty token arrives as
  \<open>Bearer\<close>) is not recorded.
\<close>

datatype effect =
    SetItem string string \<comment> \<open>\<open>localStorage.setItem(key, value)\<close>\<close>
  | RemoveItem string \<comment> \<open>\<open>localStorage.removeItem(key)\<close>\<close>
  | Navigate string \<comment> \<open>\<open>window.location.href = path\<close>\<close>
  | RefreshPost string \<comment> \<open>\<open>axios.post(.../api/v1/token/refresh, { refreshToken })\<close>\<close>
  | Resolve request_config "string option" \<comment> \<open>\<open>prom.resolve(token)\<close>\<close>
  | Reject request_config axios_error \<comment> \<open>\<open>prom.reject(error)\<close>\<close>
  | Dispatch request_config \<comment> \<open>a configuration leaving the request interceptor\<close>

text \<open>
  The module state: the two module variables \<open>isRefreshing\<close> and \<open>failedQueue\<close>, the
  browser's \<open>localStorage\<close> and \<open>window.location.href\<close>, and the effects so far.
\<close>

record client_state =
  localStorage :: storage
  isRefreshing :: bool
  failedQueue :: "request_config list"
  location_href :: string
  trace :: "effect list"

text \<open>\<open>let isRefreshing = false; let failedQueue = [];\<close>\<close>

definition initial_state :: "storage \<Rightarrow> string \<Rightarrow> client_state" where
  "initial_state ls href =
     \<lparr> localStorage = ls, isRefreshing = False, failedQueue = [],
       location_href = href, trace = [] \<rparr>"

definition emit :: "effect \<Rightarrow> client_state \<Rightarrow> client_state" where
  "emit e s = s\<lparr>trace := trace s @ [e]\<rparr>"

text \<open>The token manager's mutators, acting on the client state and recorded.\<close>

definition do_setToken :: "string \<Rightarrow> client_state \<Rightarrow> client_state" where
  "do_setToken t s =
     emit (SetItem TOKEN_STORAGE_KEY t) (s\<lparr>localStorage := setToken t (localStorage s)\<rparr>)"

definition do_setRefreshToken :: "string \<Rightarrow> client_state \<Rightarrow> client_state" where
  "do_setRefreshToken t s =
     emit (SetItem REFRESH_TOKEN_STORAGE_KEY t)
       (s\<lparr>localStorage := setRefreshToken t (localStorage s)\<rparr>)"

definition do_clearTokens :: "client_state \<Rightarrow> client_state" where
  "do_clearTokens s =
     emit (RemoveItem REFRESH_TOKEN_STORAGE_KEY)
       (emit (RemoveItem TOKEN_STORAGE_KEY)
          (s\<lparr>localStorage := clearTokens (localStorage s)\<rparr>))"

definition redirect :: "string \<Rightarrow> client_state \<Rightarrow> client_state" where
  "redirect path s = emit (Navigate path) (s\<lparr>location_href := path\<rparr>)"

section \<open>The pending queue\<close>

text \<open>
  \<open>processQueue(error, token = null)\<close>: every deferred completion of the queue, in
  order, is rejected with \<open>error\<close> when there is one and resolved with \<open>token\<close>
  otherwise; then the queue is replaced by the empty one. An error object is always
  truthy, so \<open>if (error)\<close> tests for \<open>null\<close>.
\<close>

definition settle :: "axios_error option \<Rightarrow> string option \<Rightarrow> request_config \<Rightarrow> effect" where
  "settle error tok prom = (case error of Some e \<Rightarrow> Reject prom e | None \<Rightarrow> Resolve prom tok)"

definition processQueue :: "axios_error option \<Rightarrow> string option \<Rightarrow> client_state \<Rightarrow> client_state" where
  "processQueue error tok s =
     (s\<lparr>trace := trace s @ map (settle error tok) (failedQueue s)\<rparr>)\<lparr>failedQueue := []\<rparr>"

section \<open>Request interceptor\<close>

text \<open>
  \<open>const token = tokenManager.getToken();
    if (token && config.headers) config.headers.Authorization = `Bearer ${token}`;
    return config;\<close>
\<close>

definition bearer :: "string \<Rightarrow> string" where
  "bearer t = ''Bearer '' @ t"

definition requestInterceptor :: "storage \<Rightarrow> request_config \<Rightarrow> request_config" where
  "requestInterceptor ls config =
     (case getToken ls of
        None \<Rightarrow> config
      | Some t \<Rightarrow>
          if t \<noteq> [] then config\<lparr>headers := (headers config)(''Authorization'' \<mapsto> bearer t)\<rparr>
          else config)"

text \<open>
  \<open>apiClient(config)\<close>: the request passes the request interceptor, which reads the
  token store, and is handed to the transport. The configuration handed over keeps the
  properties of the one given, \<open>_retry\<close> included.
\<close>

definition apiClient :: "request_config \<Rightarrow> client_state \<Rightarrow> client_state" where
  "apiClient config s = emit (Dispatch (requestInterceptor (localStorage s) config)) s"

section \<open>Response interceptor: the refresh coordinator\<close>

text \<open>
  The rejection handler is an \<open>async\<close> function with one \<open>await\<close>, on the refresh call.
  It is modelled in two steps: \<open>responseError\<close> is the code up to that \<open>await\<close> (or up
  to \<open>return\<close> on the paths that never reach it), \<open>refreshSettled\<close> is the code that
  runs when the refresh call has settled. Each step runs without interruption, as the
  single-threaded event loop guarantees.
\<close>

datatype handler_result =
    Propagate axios_error \<comment> \<open>\<open>return Promise.reject(error)\<close>\<close>
  | Enqueued \<comment> \<open>the promise pending on the deferred completion just pushed\<close>
  | AwaitRefresh request_config string \<comment> \<open>suspended at \<open>await axios.post(...)\<close>\<close>

datatype settled_result =
    Reissued request_config \<comment> \<open>\<open>return apiClient(originalRequest)\<close>\<close>
  | Rejected axios_error \<comment> \<open>\<open>return Promise.reject(refreshError)\<close>\<close>

text \<open>\<open>error.response?.status\<close>\<close>

definition status_of :: "axios_error \<Rightarrow> nat option" where
  "status_of error = map_option resp_status (err_response error)"

text \<open>
  The branch \<open>if (!refreshToken)\<close>: it returns before the \<open>try\<close> statement, so the
  \<open>finally\<close> block of that statement is not run on it.
\<close>

definition noRefreshToken :: "axios_error \<Rightarrow> client_state \<Rightarrow> client_state \<times> handler_result" where
  "noRefreshToken error s = (redirect ''/login'' (do_clearTokens s), Propagate error)"

text \<open>
  \<open>originalRequest\<close> is \<open>error.config\<close> itself, so setting \<open>_retry\<close> on it changes the
  error object that the no-refresh-token branch rejects with.
\<close>

definition responseError :: "axios_error \<Rightarrow> client_state \<Rightarrow> client_state \<times> handler_result" where
  "responseError error s =
     (let originalRequest = err_config error in
      if status_of error = Some 401 \<and> \<not> retry_mark originalRequest then
        if isRefreshing s then
          (s\<lparr>failedQueue := failedQueue s @ [originalRequest]\<rparr>, Enqueued)
        else
          let originalRequest = originalRequest\<lparr>retry_mark := True\<rparr>;
              error = error\<lparr>err_config := originalRequest\<rparr>;
              s = s\<lparr>isRefreshing := True\<rparr>
          in (case getRefreshToken (localStorage s) of
                None \<Rightarrow> noRefreshToken error s
              | Some rt \<Rightarrow>
                  if rt = [] then noRefreshToken error s
                  else (emit (RefreshPost rt) s, AwaitRefresh originalRequest rt))
      else (s, Propagate error))"

text \<open>
  The continuation of the queue branch, \<open>.then(() => apiClient(originalRequest))\<close>: the
  callbacks of the resolved deferred completions run as microtasks, in the order of
  their resolution, once the resolving handler's synchronous code has finished. On
  rejection the \<open>.catch\<close> passes the error on and nothing is sent.
\<close>

definition resumeQueued :: "request_config list \<Rightarrow> client_state \<Rightarrow> client_state" where
  "resumeQueued released s = fold apiClient released s"

text \<open>
  The \<open>try\<close>/\<open>catch\<close>/\<open>finally\<close> statement after the \<open>await\<close>. \<open>return
  apiClient(originalRequest)\<close> does not await the re-issued request, so \<open>finally\<close> runs
  right after the call.
\<close>

definition refreshSettled ::
  "request_config \<Rightarrow> refresh_result \<Rightarrow> client_state \<Rightarrow> client_state \<times> settled_result" where
  "refreshSettled originalRequest r s =
     (case r of
        RefreshOk d \<Rightarrow>
          let newToken = token d;
              newRefreshToken = refreshToken d;
              released = failedQueue s;
              s = do_setToken newToken s;
              s = (case newRefreshToken of
                     None \<Rightarrow> s
                   | Some rt \<Rightarrow> if rt \<noteq> [] then do_setRefreshToken rt s else s);
              s = processQueue None (Some newToken) s;
              originalRequest =
                originalRequest\<lparr>headers :=
                  (headers originalRequest)(''Authorization'' \<mapsto> bearer newToken)\<rparr>;
              s = apiClient originalRequest s;
              s = s\<lparr>isRefreshing := False\<rparr>;
              s = resumeQueued released s
          in (s, Reissued (requestInterceptor (localStorage s) originalRequest))
      | RefreshFailed refreshError \<Rightarrow>
          let s = processQueue (Some refreshError) None s;
              s = do_clearTokens s;
              s = redirect ''/login'' s;
              s = s\<lparr>isRefreshing := False\<rparr>
          in (s, Rejected refreshError))"

text \<open>Several failed responses handled one after the other, before anything settles.\<close>

fun handleAll :: "axios_error list \<Rightarrow> client_state \<Rightarrow> client_state \<times> handler_result list" where
  "handleAll [] s = (s, [])"
| "handleAll (e # es) s =
     (let (s1, r) = responseError e s;
          (s2, rs) = handleAll es s1
      in (s2, r # rs))"

section \<open>Error normalisation (\<open>handleApiError\<close>)\<close>

text \<open>
  The argument has type \<open>unknown\<close>: an Axios error, another \<open>Error\<close> instance with
  its message, or any other value.
\<close>

datatype thrown = AxiosError axios_error | Error string | NotAnError

record ApiError =
  message :: string
  status :: "nat option"
  code :: "string option"
  details :: "error_body option"

text \<open>\<open>axiosError.response?.data\<close>\<close>

definition data_of :: "axios_error \<Rightarrow> error_body option" where
  "data_of e = Option.bind (err_response e) resp_data"

text \<open>\<open>x || 'literal'\<close> with a non-empty literal.\<close>

definition or_default :: "string option \<Rightarrow> string \<Rightarrow> string" where
  "or_default a d = (case a of None \<Rightarrow> d | Some m \<Rightarrow> if m \<noteq> [] then m else d)"

definition handleApiError :: "thrown \<Rightarrow> ApiError" where
  "handleApiError error =
     (case error of
        AxiosError axiosError \<Rightarrow>
          \<lparr> message =
              or_default
                (or_else
                   (or_else (Option.bind (data_of axiosError) body_message)
                            (Option.bind (data_of axiosError) body_error))
                   (Some (err_message axiosError)))
                ''An unexpected error occurred'',
            status = status_of axiosError,
            code = err_code axiosError,
            details = data_of axiosError \<rparr>
      | Error m \<Rightarrow> \<lparr> message = m, status = None, code = None, details = None \<rparr>
      | NotAnError \<Rightarrow>
          \<lparr> message = ''An unknown error occurred'', status = None, code = None,
            details = None \<rparr>)"

section \<open>Login (\<open>loginWithToken\<close>)\<close>

text \<open>
  \<open>authApi.login\<close> is a network call; its outcome is a parameter. The response is read
  as \<open>AuthTokenResponse\<close>, \<open>{ token?: string; refreshToken?: string }\<close>, and may be
  \<open>null\<close> (\<open>responseData?.token\<close>). \<open>api.updateConfiguration()\<close> rebuilds the OpenAPI
  configuration, whose \<open>accessToken\<close> reads the token store at each call; it does not
  change the store.
\<close>

record AuthTokenResponse =
  auth_token :: "string option"
  auth_refreshToken :: "string option"

datatype login_outcome = LoginOk "AuthTokenResponse option" | LoginThrew thrown

definition loginWithToken ::
  "login_outcome \<Rightarrow> storage \<Rightarrow> storage \<times> (ApiError + AuthTokenResponse option)" where
  "loginWithToken r ls =
     (case r of
        LoginOk authData \<Rightarrow>
          let ls = (case Option.bind authData auth_token of
                      None \<Rightarrow> ls
                    | Some t \<Rightarrow> if t \<noteq> [] then setToken t ls else ls);
              ls = (case Option.bind authData auth_refreshToken of
                      None \<Rightarrow> ls
                    | Some t \<Rightarrow> if t \<noteq> [] then setRefreshToken t ls else ls)
          in (ls, Inr authData)
      | LoginThrew error \<Rightarrow> (ls, Inl (handleApiError error)))"

section \<open>Runs of the client\<close>

text \<open>
  The client is driven by two kinds of events: a request fails and its rejection handler
  runs up to its \<open>await\<close> or \<open>return\<close>; the refresh call that is in flight settles
  and the handler suspended on it resumes. Beside the client state a run keeps the
  requests whose handlers are suspended on a refresh call, that is, the refresh calls in
  flight. A settle event with no refresh call in flight cannot happen and changes
  nothing.
\<close>

datatype event = Fails axios_error | Settles refresh_result

fun step ::
  "event \<Rightarrow> client_state \<times> request_config list \<Rightarrow> client_state \<times> request_config list" where
  "step (Fails error) (s, waiting) =
     (case responseError error s of
        (s', AwaitRefresh originalRequest rt) \<Rightarrow> (s', waiting @ [originalRequest])
      | (s', Propagate e) \<Rightarrow> (s', waiting)
      | (s', Enqueued) \<Rightarrow> (s', waiting))"
| "step (Settles r) (s, []) = (s, [])"
| "step (Settles r) (s, originalRequest # waiting) =
     (fst (refreshSettled originalRequest r s), waiting)"

definition run ::
  "event list \<Rightarrow> client_state \<times> request_config list \<Rightarrow> client_state \<times> request_config list" where
  "run evs c = fold step evs c"

text \<open>
  At most one refresh call is in flight, and the flag is set while one is.
\<close>

definition one_cycle :: "client_state \<times> request_config list \<Rightarrow> bool" where
  "one_cycle c = (length (snd c) \<le> 1 \<and> (snd c = [] \<or> isRefreshing (fst c)))"

section \<open>Observations on traces\<close>

text \<open>The settlements of deferred completions in a trace, in order.\<close>

definition is_settlement :: "effect \<Rightarrow> bool" where
  "is_settlement e = (case e of Resolve _ _ \<Rightarrow> True | Reject _ _ \<Rightarrow> True | _ \<Rightarrow> False)"

definition settlements :: "effect list \<Rightarrow> effect list" where
  "settlements tr = filter is_settlement tr"

text \<open>The number of refresh network calls in a trace.\<close>

definition is_refresh_call :: "effect \<Rightarrow> bool" where
  "is_refresh_call e = (case e of RefreshPost _ \<Rightarrow> True | _ \<Rightarrow> False)"

definition refreshCalls :: "effect list \<Rightarrow> nat" where
  "refreshCalls tr = length (filter is_refresh_call tr)"

text \<open>A request with \<open>Authorization: Bearer t\<close>.\<close>

definition with_bearer :: "string \<Rightarrow> request_config \<Rightarrow> request_config" where
  "with_bearer t config = config\<lparr>headers := (headers config)(''Authorization'' \<mapsto> bearer t)\<rparr>"

text \<open>The write of the refresh token that a refresh response causes, if any.\<close>

definition refresh_token_writes :: "refresh_data \<Rightarrow> effect list" where
  "refresh_token_writes d =
     (case refreshToken d of
        None \<Rightarrow> []
      | Some rt \<Rightarrow> if rt \<noteq> [] then [SetItem REFRESH_TOKEN_STORAGE_KEY rt] else [])"

section \<open>The message preference order as the specification words it\<close>

text \<open>
  "The backend response's message field, else its error field, else the transport-level
  error message, else a fixed generic string", for every input error: the first of the
  three candidates that is there and not empty, and the generic string \<open>g\<close> when there is
  none. An input without HTTP response has no backend fields; a value that is not an
  \<open>Error\<close> has no transport-level message either.
\<close>

fun first_nonempty :: "string option list \<Rightarrow> string \<Rightarrow> string" where
  "first_nonempty [] g = g"
| "first_nonempty (None # xs) g = first_nonempty xs g"
| "first_nonempty (Some m # xs) g = (if m \<noteq> [] then m else first_nonempty xs g)"

definition backend_message :: "thrown \<Rightarrow> string option" where
  "backend_message error =
     (case error of AxiosError e \<Rightarrow> Option.bind (data_of e) body_message | _ \<Rightarrow> None)"

definition backend_error :: "thrown \<Rightarrow> string option" where
  "backend_error error =
     (case error of AxiosError e \<Rightarrow> Option.bind (data_of e) body_error | _ \<Rightarrow> None)"

definition transport_message :: "thrown \<Rightarrow> string option" where
  "transport_message error =
     (case error of AxiosError e \<Rightarrow> Some (err_message e) | Error m \<Rightarrow> Some m
      | NotAnError \<Rightarrow> None)"

definition claimed_message :: "string \<Rightarrow> thrown \<Rightarrow> string" where
  "claimed_message g error =
     first_nonempty [backend_message error, backend_error error, transport_message error] g"

section \<open>Inputs for concrete runs\<close>

text \<open>A request to a path, not yet retried, and the 401 failure of a request.\<close>

definition request_to :: "string \<Rightarrow> request_config" where
  "request_to u = \<lparr> url = u, headers = Map.empty, retry_mark = False \<rparr>"

definition unauthorized :: "request_config \<Rightarrow> axios_error" where
  "unauthorized config =
     \<lparr> err_message = ''Request failed with status code 401'',
       err_code = Some ''ERR_BAD_REQUEST'',
       err_response = Some \<lparr> resp_status = 401, resp_data = None \<rparr>,
       err_config = config \<rparr>"

text \<open>A token store holding an access token and a refresh token.\<close>

definition with_tokens :: "string \<Rightarrow> string \<Rightarrow> storage" where
  "with_tokens a r = setRefreshToken r (setToken a Map.empty)"

text \<open>
  A run: the client is idle with both tokens stored; the requests to \<open>/a\<close> and \<open>/b\<close>
  fail with 401 one after the other; the refresh call that the first failure started
  succeeds with the new access token \<open>a2\<close>.
\<close>

definition logged_in :: client_state where
  "logged_in = initial_state (with_tokens ''a1'' ''r1'') ''/dashboard''"

definition after_refresh :: client_state where
  "after_refresh =
     fst (refreshSettled ((request_to ''/a'')\<lparr>retry_mark := True\<rparr>)
            (RefreshOk \<lparr>token = ''a2'', refreshToken = None\<rparr>)
            (fst (handleAll [unauthorized (request_to ''/a''), unauthorized (request_to ''/b'')]
                    logged_in)))"


section \<open>Basic facts about the steps\<close>

lemma responseError_marked:
  "retry_mark (err_config e) \<Longrightarrow> responseError e s = (s, Propagate e)"
  by (simp add: responseError_def)

lemma responseError_not_401:
  "status_of e \<noteq> Some 401 \<Longrightarrow> responseError e s = (s, Propagate e)"
  by (simp add: responseError_def)

lemma responseError_enqueue:
  "status_of e = Some 401 \<Longrightarrow> \<not> retry_mark (err_config e) \<Longrightarrow> isRefreshing s \<Longrightarrow>
   responseError e s = (s\<lparr>failedQueue := failedQueue s @ [err_config e]\<rparr>, Enqueued)"
  by (simp add: responseError_def)

lemma responseError_start:
  "status_of e = Some 401 \<Longrightarrow> \<not> retry_mark (err_config e) \<Longrightarrow> \<not> isRefreshing s \<Longrightarrow>
   getRefreshToken (localStorage s) = Some rt \<Longrightarrow> rt \<noteq> [] \<Longrightarrow>
   responseError e s =
     (emit (RefreshPost rt) (s\<lparr>isRefreshing := True\<rparr>),
      AwaitRefresh ((err_config e)\<lparr>retry_mark := True\<rparr>) rt)"
  by (simp add: responseError_def)

lemma responseError_no_token:
  "status_of e = Some 401 \<Longrightarrow> \<not> retry_mark (err_config e) \<Longrightarrow> \<not> isRefreshing s \<Longrightarrow>
   \<not> truthy (getRefreshToken (localStorage s)) \<Longrightarrow>
   responseError e s =
     (redirect ''/login'' (do_clearTokens (s\<lparr>isRefreshing := True\<rparr>)),
      Propagate (e\<lparr>err_config := (err_config e)\<lparr>retry_mark := True\<rparr>\<rparr>))"
  by (cases "getRefreshToken (localStorage s)") (simp_all add: responseError_def noRefreshToken_def)

lemma trace_emit [simp]: "trace (emit e s) = trace s @ [e]"
  and isRefreshing_emit [simp]: "isRefreshing (emit e s) = isRefreshing s"
  and failedQueue_emit [simp]: "failedQueue (emit e s) = failedQueue s"
  and localStorage_emit [simp]: "localStorage (emit e s) = localStorage s"
  and location_emit [simp]: "location_href (emit e s) = location_href s"
  by (simp_all add: emit_def)

lemma processQueue_fields [simp]:
  "trace (processQueue err tok s) = trace s @ map (settle err tok) (failedQueue s)"
  "failedQueue (processQueue err tok s) = []"
  "isRefreshing (processQueue err tok s) = isRefreshing s"
  "localStorage (processQueue err tok s) = localStorage s"
  "location_href (processQueue err tok s) = location_href s"
  by (simp_all add: processQueue_def)

lemma apiClient_fields [simp]:
  "trace (apiClient c s) = trace s @ [Dispatch (requestInterceptor (localStorage s) c)]"
  "failedQueue (apiClient c s) = failedQueue s"
  "isRefreshing (apiClient c s) = isRefreshing s"
  "localStorage (apiClient c s) = localStorage s"
  "location_href (apiClient c s) = location_href s"
  by (simp_all add: apiClient_def)

lemma resumeQueued_fields [simp]:
  "trace (resumeQueued qs s) = trace s @ map (\<lambda>q. Dispatch (requestInterceptor (localStorage s) q)) qs"
  "failedQueue (resumeQueued qs s) = failedQueue s"
  "isRefreshing (resumeQueued qs s) = isRefreshing s"
  "localStorage (resumeQueued qs s) = localStorage s"
  "location_href (resumeQueued qs s) = location_href s"
  unfolding resumeQueued_def
  by (induction qs arbitrary: s) simp_all

lemma do_setToken_fields [simp]:
  "trace (do_setToken t s) = trace s @ [SetItem TOKEN_STORAGE_KEY t]"
  "failedQueue (do_setToken t s) = failedQueue s"
  "isRefreshing (do_setToken t s) = isRefreshing s"
  "localStorage (do_setToken t s) = setToken t (localStorage s)"
  "location_href (do_setToken t s) = location_href s"
  by (simp_all add: do_setToken_def)

lemma do_setRefreshToken_fields [simp]:
  "trace (do_setRefreshToken t s) = trace s @ [SetItem REFRESH_TOKEN_STORAGE_KEY t]"
  "failedQueue (do_setRefreshToken t s) = failedQueue s"
  "isRefreshing (do_setRefreshToken t s) = isRefreshing s"
  "localStorage (do_setRefreshToken t s) = setRefreshToken t (localStorage s)"
  "location_href (do_setRefreshToken t s) = location_href s"
  by (simp_all add: do_setRefreshToken_def)

lemma do_clearTokens_fields [simp]:
  "trace (do_clearTokens s) = trace s @ [RemoveItem TOKEN_STORAGE_KEY, RemoveItem REFRESH_TOKEN_STORAGE_KEY]"
  "failedQueue (do_clearTokens s) = failedQueue s"
  "isRefreshing (do_clearTokens s) = isRefreshing s"
  "localStorage (do_clearTokens s) = clearTokens (localStorage s)"
  "location_href (do_clearTokens s) = location_href s"
  by (simp_all add: do_clearTokens_def)

lemma redirect_fields [simp]:
  "trace (redirect p s) = trace s @ [Navigate p]"
  "failedQueue (redirect p s) = failedQueue s"
  "isRefreshing (redirect p s) = isRefreshing s"
  "localStorage (redirect p s) = localStorage s"
  "location_href (redirect p s) = p"
  by (simp_all add: redirect_def)

lemma token_store_simps [simp]:
  "getToken (setToken t ls) = Some t"
  "getToken (setRefreshToken t ls) = getToken ls"
  "getRefreshToken (setRefreshToken t ls) = Some t"
  "getRefreshToken (setToken t ls) = getRefreshToken ls"
  "getToken (clearTokens ls) = None"
  "getRefreshToken (clearTokens ls) = None"
  by (simp_all add: getToken_def setToken_def getRefreshToken_def setRefreshToken_def
      clearTokens_def TOKEN_STORAGE_KEY_def REFRESH_TOKEN_STORAGE_KEY_def)

lemma requestInterceptor_present:
  "getToken ls = Some t \<Longrightarrow> t \<noteq> [] \<Longrightarrow> requestInterceptor ls config = with_bearer t config"
  by (simp add: requestInterceptor_def with_bearer_def)

lemma requestInterceptor_absent:
  "\<not> hasToken ls \<Longrightarrow> requestInterceptor ls config = config"
  by (cases "getToken ls") (simp_all add: requestInterceptor_def hasToken_def)

lemma with_bearer_idem [simp]: "with_bearer t (with_bearer t c) = with_bearer t c"
  by (simp add: with_bearer_def)

lemma refreshSettled_ok_trace:
  assumes "token d \<noteq> []"
  shows "trace (fst (refreshSettled orig (RefreshOk d) s)) =
     trace s @ [SetItem TOKEN_STORAGE_KEY (token d)] @ refresh_token_writes d
       @ map (\<lambda>q. Resolve q (Some (token d))) (failedQueue s)
       @ map (\<lambda>q. Dispatch (with_bearer (token d) q)) (orig # failedQueue s)"
  using assms
  by (cases "refreshToken d")
     (simp_all add: refreshSettled_def Let_def refresh_token_writes_def settle_def
        requestInterceptor_present with_bearer_def[symmetric])


section \<open>Facts about traces and settled refreshes\<close>

lemma settle_None [simp]: "settle None tok = (\<lambda>q. Resolve q tok)"
  and settle_Some [simp]: "settle (Some e) tok = (\<lambda>q. Reject q e)"
  by (simp_all add: settle_def fun_eq_iff)

lemma settlements_append [simp]: "settlements (xs @ ys) = settlements xs @ settlements ys"
  by (simp add: settlements_def)

lemma settlements_simps [simp]:
  "settlements [] = []"
  "settlements (Resolve q t # tr) = Resolve q t # settlements tr"
  "settlements (Reject q e # tr) = Reject q e # settlements tr"
  "settlements (SetItem k v # tr) = settlements tr"
  "settlements (RemoveItem k # tr) = settlements tr"
  "settlements (Navigate p # tr) = settlements tr"
  "settlements (RefreshPost rt # tr) = settlements tr"
  "settlements (Dispatch c # tr) = settlements tr"
  by (simp_all add: settlements_def is_settlement_def)

lemma settlements_map_Resolve [simp]:
  "settlements (map (\<lambda>q. Resolve q tok) qs) = map (\<lambda>q. Resolve q tok) qs"
  by (induction qs) simp_all

lemma settlements_map_Reject [simp]:
  "settlements (map (\<lambda>q. Reject q e) qs) = map (\<lambda>q. Reject q e) qs"
  by (induction qs) simp_all

lemma settlements_map_Dispatch [simp]: "settlements (map (\<lambda>q. Dispatch (f q)) qs) = []"
  by (induction qs) simp_all

lemma refreshCalls_append [simp]: "refreshCalls (xs @ ys) = refreshCalls xs + refreshCalls ys"
  by (simp add: refreshCalls_def)

lemma refreshCalls_simps [simp]:
  "refreshCalls [] = 0"
  "refreshCalls (Resolve q t # tr) = refreshCalls tr"
  "refreshCalls (Reject q e # tr) = refreshCalls tr"
  "refreshCalls (SetItem k v # tr) = refreshCalls tr"
  "refreshCalls (RemoveItem k # tr) = refreshCalls tr"
  "refreshCalls (Navigate p # tr) = refreshCalls tr"
  "refreshCalls (RefreshPost rt # tr) = Suc (refreshCalls tr)"
  "refreshCalls (Dispatch c # tr) = refreshCalls tr"
  by (simp_all add: refreshCalls_def is_refresh_call_def)

lemma refreshCalls_map_Resolve [simp]: "refreshCalls (map (\<lambda>q. Resolve q tok) qs) = 0"
  by (induction qs) simp_all

lemma refreshCalls_map_Reject [simp]: "refreshCalls (map (\<lambda>q. Reject q e) qs) = 0"
  by (induction qs) simp_all

lemma refreshCalls_map_Dispatch [simp]: "refreshCalls (map (\<lambda>q. Dispatch (f q)) qs) = 0"
  by (induction qs) simp_all

lemma refreshCalls_refresh_token_writes [simp]: "refreshCalls (refresh_token_writes d) = 0"
  and settlements_refresh_token_writes [simp]: "settlements (refresh_token_writes d) = []"
  by (simp_all add: refresh_token_writes_def split: option.splits)

lemma refreshSettled_ok_fields:
  "trace (fst (refreshSettled orig (RefreshOk d) s)) =
     trace s @ [SetItem TOKEN_STORAGE_KEY (token d)] @ refresh_token_writes d
       @ map (\<lambda>q. Resolve q (Some (token d))) (failedQueue s)
       @ map (\<lambda>q. Dispatch (requestInterceptor (localStorage (fst (refreshSettled orig (RefreshOk d) s))) q))
           (with_bearer (token d) orig # failedQueue s)"
  "failedQueue (fst (refreshSettled orig (RefreshOk d) s)) = []"
  "isRefreshing (fst (refreshSettled orig (RefreshOk d) s)) = False"
  "location_href (fst (refreshSettled orig (RefreshOk d) s)) = location_href s"
  "getToken (localStorage (fst (refreshSettled orig (RefreshOk d) s))) = Some (token d)"
  by (cases "refreshToken d";
      simp add: refreshSettled_def Let_def refresh_token_writes_def with_bearer_def)+

lemma refreshSettled_ok_refresh_token:
  "getRefreshToken (localStorage (fst (refreshSettled orig (RefreshOk d) s))) =
     (if truthy (refreshToken d) then refreshToken d else getRefreshToken (localStorage s))"
  by (cases "refreshToken d") (simp_all add: refreshSettled_def Let_def)

lemma refreshSettled_failed_fields:
  "trace (fst (refreshSettled orig (RefreshFailed e) s)) =
     trace s @ map (\<lambda>q. Reject q e) (failedQueue s)
       @ [RemoveItem TOKEN_STORAGE_KEY, RemoveItem REFRESH_TOKEN_STORAGE_KEY, Navigate ''/login'']"
  "failedQueue (fst (refreshSettled orig (RefreshFailed e) s)) = []"
  "isRefreshing (fst (refreshSettled orig (RefreshFailed e) s)) = False"
  "location_href (fst (refreshSettled orig (RefreshFailed e) s)) = ''/login''"
  "getToken (localStorage (fst (refreshSettled orig (RefreshFailed e) s))) = None"
  "getRefreshToken (localStorage (fst (refreshSettled orig (RefreshFailed e) s))) = None"
  "snd (refreshSettled orig (RefreshFailed e) s) = Rejected e"
  by (simp_all add: refreshSettled_def Let_def)

lemma refreshSettled_idle: "\<not> isRefreshing (fst (refreshSettled orig r s))"
  by (cases r) (simp_all add: refreshSettled_ok_fields refreshSettled_failed_fields)

section \<open>Facts about sequences of failed responses\<close>

lemma handleAll_enqueue:
  "isRefreshing s \<Longrightarrow> \<forall>e \<in> set es. status_of e = Some 401 \<and> \<not> retry_mark (err_config e) \<Longrightarrow>
   handleAll es s = (s\<lparr>failedQueue := failedQueue s @ map err_config es\<rparr>, map (\<lambda>_. Enqueued) es)"
proof (induction es arbitrary: s)
  case Nil
  then show ?case by simp
next
  case (Cons e es)
  then have step: "responseError e s = (s\<lparr>failedQueue := failedQueue s @ [err_config e]\<rparr>, Enqueued)"
    by (simp add: responseError_enqueue)
  have "isRefreshing (s\<lparr>failedQueue := failedQueue s @ [err_config e]\<rparr>)"
    using Cons.prems(1) by simp
  with Cons have "handleAll es (s\<lparr>failedQueue := failedQueue s @ [err_config e]\<rparr>) =
     ((s\<lparr>failedQueue := failedQueue s @ [err_config e]\<rparr>)
        \<lparr>failedQueue := failedQueue (s\<lparr>failedQueue := failedQueue s @ [err_config e]\<rparr>) @ map err_config es\<rparr>,
      map (\<lambda>_. Enqueued) es)"
    by simp
  with step show ?case by simp
qed

lemma handleAll_start:
  assumes "\<not> isRefreshing s"
    and "getRefreshToken (localStorage s) = Some rt"
    and "rt \<noteq> []"
    and "\<forall>e \<in> set (first # others). status_of e = Some 401 \<and> \<not> retry_mark (err_config e)"
  shows "handleAll (first # others) s =
     ((emit (RefreshPost rt) (s\<lparr>isRefreshing := True\<rparr>))
        \<lparr>failedQueue := failedQueue s @ map err_config others\<rparr>,
      AwaitRefresh ((err_config first)\<lparr>retry_mark := True\<rparr>) rt # map (\<lambda>_. Enqueued) others)"
proof -
  let ?s0 = "emit (RefreshPost rt) (s\<lparr>isRefreshing := True\<rparr>)"
  from assms have first: "responseError first s =
      (?s0, AwaitRefresh ((err_config first)\<lparr>retry_mark := True\<rparr>) rt)"
    by (simp add: responseError_start)
  have "isRefreshing ?s0"
    by simp
  moreover from assms(4)
  have "\<forall>e \<in> set others. status_of e = Some 401 \<and> \<not> retry_mark (err_config e)"
    by simp
  ultimately have "handleAll others ?s0 =
      (?s0\<lparr>failedQueue := failedQueue ?s0 @ map err_config others\<rparr>, map (\<lambda>_. Enqueued) others)"
    by (rule handleAll_enqueue)
  with first show ?thesis
    by simp
qed

lemma handleAll_burst:
  assumes "\<not> isRefreshing s"
    and "getRefreshToken (localStorage s) = Some rt"
    and "rt \<noteq> []"
    and "\<forall>e \<in> set (first # others). status_of e = Some 401 \<and> \<not> retry_mark (err_config e)"
  shows "case handleAll (first # others) s of
           (s1, rs) \<Rightarrow>
             rs = AwaitRefresh ((err_config first)\<lparr>retry_mark := True\<rparr>) rt # map (\<lambda>_. Enqueued) others
             \<and> trace s1 = trace s @ [RefreshPost rt]
             \<and> refreshCalls (trace s1) = refreshCalls (trace s) + 1
             \<and> isRefreshing s1
             \<and> failedQueue s1 = failedQueue s @ map err_config others
             \<and> (\<forall>d. case refreshSettled ((err_config first)\<lparr>retry_mark := True\<rparr>) (RefreshOk d) s1 of
                      (s2, res) \<Rightarrow>
                        refreshCalls (trace s2) = refreshCalls (trace s) + 1
                        \<and> settlements (trace s2) =
                            settlements (trace s)
                              @ map (\<lambda>q. Resolve q (Some (token d))) (failedQueue s @ map err_config others)
                        \<and> failedQueue s2 = [] \<and> \<not> isRefreshing s2)
             \<and> (\<forall>err. case refreshSettled ((err_config first)\<lparr>retry_mark := True\<rparr>) (RefreshFailed err) s1 of
                      (s2, res) \<Rightarrow>
                        refreshCalls (trace s2) = refreshCalls (trace s) + 1
                        \<and> settlements (trace s2) =
                            settlements (trace s)
                              @ map (\<lambda>q. Reject q err) (failedQueue s @ map err_config others)
                        \<and> failedQueue s2 = [] \<and> \<not> isRefreshing s2
                        \<and> res = Rejected err)"
proof -
  let ?orig = "(err_config first)\<lparr>retry_mark := True\<rparr>"
  let ?s1 = "(emit (RefreshPost rt) (s\<lparr>isRefreshing := True\<rparr>))
               \<lparr>failedQueue := failedQueue s @ map err_config others\<rparr>"
  from assms have all: "handleAll (first # others) s =
      (?s1, AwaitRefresh ?orig rt # map (\<lambda>_. Enqueued) others)"
    by (rule handleAll_start)
  have tr: "trace ?s1 = trace s @ [RefreshPost rt]"
    and fl: "isRefreshing ?s1"
    and fq: "failedQueue ?s1 = failedQueue s @ map err_config others"
    by simp_all
  have ok: "refreshCalls (trace (fst (refreshSettled ?orig (RefreshOk d) ?s1))) = refreshCalls (trace s) + 1
      \<and> settlements (trace (fst (refreshSettled ?orig (RefreshOk d) ?s1))) =
           settlements (trace s) @ map (\<lambda>q. Resolve q (Some (token d))) (failedQueue s @ map err_config others)
      \<and> failedQueue (fst (refreshSettled ?orig (RefreshOk d) ?s1)) = []
      \<and> \<not> isRefreshing (fst (refreshSettled ?orig (RefreshOk d) ?s1))" for d
    by (simp add: refreshSettled_ok_fields tr fq del: map_append)
  have failed: "refreshCalls (trace (fst (refreshSettled ?orig (RefreshFailed err) ?s1))) = refreshCalls (trace s) + 1
      \<and> settlements (trace (fst (refreshSettled ?orig (RefreshFailed err) ?s1))) =
           settlements (trace s) @ map (\<lambda>q. Reject q err) (failedQueue s @ map err_config others)
      \<and> failedQueue (fst (refreshSettled ?orig (RefreshFailed err) ?s1)) = []
      \<and> \<not> isRefreshing (fst (refreshSettled ?orig (RefreshFailed err) ?s1))
      \<and> snd (refreshSettled ?orig (RefreshFailed err) ?s1) = Rejected err" for err
    by (simp add: refreshSettled_failed_fields tr fq del: map_append)
  from tr fl fq ok failed show ?thesis
    unfolding all by (simp add: case_prod_beta del: map_append)
qed

section \<open>Facts about runs\<close>

lemma responseError_keeps_flag: "isRefreshing s \<Longrightarrow> isRefreshing (fst (responseError e s))"
  by (simp add: responseError_def Let_def)

lemma responseError_await:
  "responseError e s = (s', AwaitRefresh orig rt) \<Longrightarrow> \<not> isRefreshing s \<and> isRefreshing s'"
  by (auto simp: responseError_def noRefreshToken_def Let_def split: if_splits option.splits)

lemma responseError_await_trace:
  "responseError e s = (s', AwaitRefresh orig rt) \<Longrightarrow> trace s' = trace s @ [RefreshPost rt]"
  by (auto simp: responseError_def noRefreshToken_def Let_def split: if_splits option.splits)

lemma responseError_calls_while_refreshing:
  "isRefreshing s \<Longrightarrow> refreshCalls (trace (fst (responseError e s))) = refreshCalls (trace s)"
  by (simp add: responseError_def Let_def)

lemma step_one_cycle: "one_cycle c \<Longrightarrow> one_cycle (step ev c)"
proof (cases c)
  case (Pair s waiting)
  assume inv: "one_cycle c"
  show ?thesis
  proof (cases ev)
    case (Fails error)
    obtain s' res where re: "responseError error s = (s', res)"
      by (cases "responseError error s")
    show ?thesis
    proof (cases res)
      case (AwaitRefresh orig rt)
      with re have "\<not> isRefreshing s" "isRefreshing s'"
        using responseError_await by blast+
      with inv Pair have "waiting = []"
        by (auto simp: one_cycle_def)
      with Pair Fails re AwaitRefresh \<open>isRefreshing s'\<close> show ?thesis
        by (simp add: one_cycle_def)
    next
      case (Propagate e)
      from re responseError_keeps_flag [of s error] have "isRefreshing s \<Longrightarrow> isRefreshing s'"
        by simp
      with inv Pair Fails re Propagate show ?thesis
        by (auto simp: one_cycle_def)
    next
      case Enqueued
      from re responseError_keeps_flag [of s error] have "isRefreshing s \<Longrightarrow> isRefreshing s'"
        by simp
      with inv Pair Fails re Enqueued show ?thesis
        by (auto simp: one_cycle_def)
    qed
  next
    case (Settles r)
    show ?thesis
    proof (cases waiting)
      case Nil
      with inv Pair Settles show ?thesis by (simp add: one_cycle_def)
    next
      case (Cons orig rest)
      with inv Pair have "rest = []"
        by (simp add: one_cycle_def)
      with Pair Settles Cons show ?thesis
        by (simp add: one_cycle_def)
    qed
  qed
qed

lemma run_one_cycle: "one_cycle c \<Longrightarrow> one_cycle (run evs c)"
  unfolding run_def
  by (induction evs arbitrary: c) (simp_all add: step_one_cycle)

lemma initial_one_cycle: "one_cycle (initial_state ls href, [])"
  by (simp add: one_cycle_def)

section \<open>Facts about the concrete runs\<close>

lemma logged_in_fields:
  "isRefreshing logged_in = False"
  "failedQueue logged_in = []"
  "trace logged_in = []"
  "getRefreshToken (localStorage logged_in) = Some ''r1''"
  "getToken (localStorage logged_in) = Some ''a1''"
  by (simp_all add: logged_in_def initial_state_def with_tokens_def)

lemma unauthorized_fields [simp]:
  "status_of (unauthorized c) = Some 401"
  "err_config (unauthorized c) = c"
  by (simp_all add: unauthorized_def status_of_def)

lemma after_refresh_fields:
  "trace after_refresh =
     [RefreshPost ''r1'', SetItem ''auth_token'' ''a2'',
      Resolve (request_to ''/b'') (Some ''a2''),
      Dispatch (with_bearer ''a2'' ((request_to ''/a'')\<lparr>retry_mark := True\<rparr>)),
      Dispatch (with_bearer ''a2'' (request_to ''/b''))]"
  "isRefreshing after_refresh = False"
  "getRefreshToken (localStorage after_refresh) = Some ''r1''"
  "failedQueue after_refresh = []"
proof -
  have "handleAll [unauthorized (request_to ''/a''), unauthorized (request_to ''/b'')] logged_in =
     ((emit (RefreshPost ''r1'') (logged_in\<lparr>isRefreshing := True\<rparr>))
        \<lparr>failedQueue := failedQueue logged_in @ map err_config [unauthorized (request_to ''/b'')]\<rparr>,
      AwaitRefresh ((err_config (unauthorized (request_to ''/a'')))\<lparr>retry_mark := True\<rparr>) ''r1''
        # map (\<lambda>_. Enqueued) [unauthorized (request_to ''/b'')])"
    by (rule handleAll_start) (simp_all add: logged_in_fields request_to_def)
  then have run: "after_refresh =
     fst (refreshSettled ((request_to ''/a'')\<lparr>retry_mark := True\<rparr>)
            (RefreshOk \<lparr>token = ''a2'', refreshToken = None\<rparr>)
            ((emit (RefreshPost ''r1'') (logged_in\<lparr>isRefreshing := True\<rparr>))
               \<lparr>failedQueue := [request_to ''/b'']\<rparr>))"
    by (simp add: after_refresh_def logged_in_fields)
  show "trace after_refresh =
     [RefreshPost ''r1'', SetItem ''auth_token'' ''a2'',
      Resolve (request_to ''/b'') (Some ''a2''),
      Dispatch (with_bearer ''a2'' ((request_to ''/a'')\<lparr>retry_mark := True\<rparr>)),
      Dispatch (with_bearer ''a2'' (request_to ''/b''))]"
    unfolding run
    by (simp add: refreshSettled_ok_trace refresh_token_writes_def logged_in_fields
        TOKEN_STORAGE_KEY_def)
  show "isRefreshing after_refresh = False"
    unfolding run by (simp add: refreshSettled_ok_fields)
  show "getRefreshToken (localStorage after_refresh) = Some ''r1''"
    unfolding run by (simp add: refreshSettled_ok_refresh_token logged_in_fields)
  show "failedQueue after_refresh = []"
    unfolding run by (simp add: refreshSettled_ok_fields)
qed

lemmas run_defs =
  unauthorized_def request_to_def initial_state_def status_of_def with_tokens_def
  logged_in_def TOKEN_STORAGE_KEY_def REFRESH_TOKEN_STORAGE_KEY_def
  getRefreshToken_def getToken_def setToken_def setRefreshToken_def clearTokens_def
  responseError_def noRefreshToken_def with_bearer_def bearer_def

section \<open>Facts about the message preference order\<close>

lemma or_chain_first_nonempty:
  "or_default (or_else (or_else a b) c) g = first_nonempty [a, b, c] g"
  by (cases a; cases b; cases c) (simp_all add: or_default_def or_else_def)

lemma first_nonempty_nonempty: "g \<noteq> [] \<Longrightarrow> first_nonempty xs g \<noteq> []"
  by (induction xs g rule: first_nonempty.induct) simp_all

lemma truthy_iff: "truthy x \<longleftrightarrow> (\<exists>t. x = Some t \<and> t \<noteq> [])"
  by (cases x) auto

section \<open>One refresh call for a burst of 401 responses\<close>

text \<open>
  C1, as amended. First part: let the client be idle (\<open>isRefreshing\<close> false) with a
  refresh token present in the token store (stored and not empty), and let \<open>N \<ge> 1\<close>
  requests that do not carry the retry marker fail with 401, their handlers running one
  after the other before the refresh call that the first one starts has settled. Then
  exactly one refresh call is issued, by the first handler, which marks its request and
  suspends on that call; each of the other \<open>N - 1\<close> handlers issues nothing and pushes
  its deferred completion onto the pending queue, in arrival order. When that refresh
  call settles, with either outcome, no further refresh call has been made, every
  queued completion is settled in queue order by that one drain (all resolved with the
  new token, or all rejected with the refresh error), the queue is empty and the flag
  is false again.

  Second part, with no condition on the token store or on the timing: in every run of
  the client from its initial state, whatever fails and whenever the refresh call
  settles, at most one refresh call is in flight, and the flag is set while one is. The
  flag is the gate: a handler that finds it set starts no refresh call, and a handler
  that starts one found it unset and has set it.
\<close>

theorem single_refresh_when_token_present:
  "(\<not> isRefreshing s \<and> getRefreshToken (localStorage s) = Some rt \<and> rt \<noteq> []
      \<and> (\<forall>e \<in> set (first # others). status_of e = Some 401 \<and> \<not> retry_mark (err_config e))
    \<longrightarrow>
      (case handleAll (first # others) s of
           (s1, rs) \<Rightarrow>
             rs = AwaitRefresh ((err_config first)\<lparr>retry_mark := True\<rparr>) rt # map (\<lambda>_. Enqueued) others
             \<and> trace s1 = trace s @ [RefreshPost rt]
             \<and> refreshCalls (trace s1) = refreshCalls (trace s) + 1
             \<and> isRefreshing s1
             \<and> failedQueue s1 = failedQueue s @ map err_config others
             \<and> (\<forall>d. case refreshSettled ((err_config first)\<lparr>retry_mark := True\<rparr>) (RefreshOk d) s1 of
                      (s2, res) \<Rightarrow>
                        refreshCalls (trace s2) = refreshCalls (trace s) + 1
                        \<and> settlements (trace s2) =
                            settlements (trace s)
                              @ map (\<lambda>q. Resolve q (Some (token d))) (failedQueue s @ map err_config others)
                        \<and> failedQueue s2 = [] \<and> \<not> isRefreshing s2)
             \<and> (\<forall>err. case refreshSettled ((err_config first)\<lparr>retry_mark := True\<rparr>) (RefreshFailed err) s1 of
                      (s2, res) \<Rightarrow>
                        refreshCalls (trace s2) = refreshCalls (trace s) + 1
                        \<and> settlements (trace s2) =
                            settlements (trace s)
                              @ map (\<lambda>q. Reject q err) (failedQueue s @ map err_config others)
                        \<and> failedQueue s2 = [] \<and> \<not> isRefreshing s2
                        \<and> res = Rejected err)))
   \<and> length (snd (run evs (initial_state ls href, []))) \<le> 1
   \<and> (snd (run evs (initial_state ls href, [])) = []
        \<or> isRefreshing (fst (run evs (initial_state ls href, []))))
   \<and> (isRefreshing s' \<longrightarrow>
        refreshCalls (trace (fst (responseError error s'))) = refreshCalls (trace s'))
   \<and> (snd (responseError error s') = AwaitRefresh originalRequest rt' \<longrightarrow>
        \<not> isRefreshing s' \<and> isRefreshing (fst (responseError error s'))
        \<and> trace (fst (responseError error s')) = trace s' @ [RefreshPost rt'])"
proof -
  have burst: "case handleAll (first # others) s of
           (s1, rs) \<Rightarrow>
             rs = AwaitRefresh ((err_config first)\<lparr>retry_mark := True\<rparr>) rt # map (\<lambda>_. Enqueued) others
             \<and> trace s1 = trace s @ [RefreshPost rt]
             \<and> refreshCalls (trace s1) = refreshCalls (trace s) + 1
             \<and> isRefreshing s1
             \<and> failedQueue s1 = failedQueue s @ map err_config others
             \<and> (\<forall>d. case refreshSettled ((err_config first)\<lparr>retry_mark := True\<rparr>) (RefreshOk d) s1 of
                      (s2, res) \<Rightarrow>
                        refreshCalls (trace s2) = refreshCalls (trace s) + 1
                        \<and> settlements (trace s2) =
                            settlements (trace s)
                              @ map (\<lambda>q. Resolve q (Some (token d))) (failedQueue s @ map err_config others)
                        \<and> failedQueue s2 = [] \<and> \<not> isRefreshing s2)
             \<and> (\<forall>err. case refreshSettled ((err_config first)\<lparr>retry_mark := True\<rparr>) (RefreshFailed err) s1 of
                      (s2, res) \<Rightarrow>
                        refreshCalls (trace s2) = refreshCalls (trace s) + 1
                        \<and> settlements (trace s2) =
                            settlements (trace s)
                              @ map (\<lambda>q. Reject q err) (failedQueue s @ map err_config others)
                        \<and> failedQueue s2 = [] \<and> \<not> isRefreshing s2
                        \<and> res = Rejected err)"
    if "\<not> isRefreshing s \<and> getRefreshToken (localStorage s) = Some rt \<and> rt \<noteq> []
      \<and> (\<forall>e \<in> set (first # others). status_of e = Some 401 \<and> \<not> retry_mark (err_config e))"
    using that by (intro handleAll_burst) simp_all
  have "one_cycle (run evs (initial_state ls href, []))"
    using initial_one_cycle by (rule run_one_cycle)
  then have in_flight: "length (snd (run evs (initial_state ls href, []))) \<le> 1"
    and flag: "snd (run evs (initial_state ls href, [])) = []
        \<or> isRefreshing (fst (run evs (initial_state ls href, [])))"
    by (simp_all add: one_cycle_def)
  have gate: "refreshCalls (trace (fst (responseError error s'))) = refreshCalls (trace s')"
    if "isRefreshing s'"
    using that by (rule responseError_calls_while_refreshing)
  have starts: "\<not> isRefreshing s' \<and> isRefreshing (fst (responseError error s'))
        \<and> trace (fst (responseError error s')) = trace s' @ [RefreshPost rt']"
    if started: "snd (responseError error s') = AwaitRefresh originalRequest rt'"
  proof -
    obtain s2 where "responseError error s' = (s2, AwaitRefresh originalRequest rt')"
      using started by (cases "responseError error s'") simp
    then show ?thesis
      using responseError_await [of error s' s2 originalRequest rt']
        responseError_await_trace [of error s' s2 originalRequest rt']
      by simp
  qed
  from burst in_flight flag gate starts show ?thesis
    by blast
qed

text \<open>
  C1, witness: three requests fail with 401 while the client is idle and holds the
  refresh token \<open>r1\<close>.
\<close>

theorem single_refresh_when_token_present_witness:
  "(case handleAll [unauthorized (request_to ''/a''), unauthorized (request_to ''/b''),
                   unauthorized (request_to ''/c'')] logged_in of
     (s1, rs) \<Rightarrow>
       rs = [AwaitRefresh ((request_to ''/a'')\<lparr>retry_mark := True\<rparr>) ''r1'', Enqueued, Enqueued]
       \<and> trace s1 = [RefreshPost ''r1'']
       \<and> refreshCalls (trace s1) = 1
       \<and> isRefreshing s1
       \<and> failedQueue s1 = [request_to ''/b'', request_to ''/c''])
   \<and> snd (responseError (unauthorized (request_to ''/a'')) logged_in) =
       AwaitRefresh ((request_to ''/a'')\<lparr>retry_mark := True\<rparr>) ''r1''
   \<and> \<not> isRefreshing logged_in
   \<and> isRefreshing (fst (responseError (unauthorized (request_to ''/a'')) logged_in))
   \<and> trace (fst (responseError (unauthorized (request_to ''/a'')) logged_in)) = [RefreshPost ''r1'']
   \<and> refreshCalls (trace (fst (responseError (unauthorized (request_to ''/b''))
         (fst (responseError (unauthorized (request_to ''/a'')) logged_in))))) = 1"
proof -
  let ?first = "unauthorized (request_to ''/a'')"
  let ?others = "[unauthorized (request_to ''/b''), unauthorized (request_to ''/c'')]"
  let ?orig = "(request_to ''/a'')\<lparr>retry_mark := True\<rparr>"
  let ?s1 = "fst (responseError ?first logged_in)"
  have hyp: "\<not> isRefreshing logged_in
      \<and> getRefreshToken (localStorage logged_in) = Some ''r1'' \<and> ''r1'' \<noteq> []
      \<and> (\<forall>e \<in> set (?first # ?others). status_of e = Some 401 \<and> \<not> retry_mark (err_config e))"
    by (simp add: logged_in_fields request_to_def)
  from single_refresh_when_token_present
    [where s = logged_in and rt = "''r1''" and first = ?first and others = ?others,
      THEN conjunct1, THEN mp, OF hyp]
  have burst: "case handleAll (?first # ?others) logged_in of
     (s1, rs) \<Rightarrow>
       rs = [AwaitRefresh ?orig ''r1'', Enqueued, Enqueued]
       \<and> trace s1 = [RefreshPost ''r1'']
       \<and> refreshCalls (trace s1) = 1
       \<and> isRefreshing s1
       \<and> failedQueue s1 = [request_to ''/b'', request_to ''/c'']"
    by (simp add: case_prod_beta logged_in_fields)
  have start: "responseError ?first logged_in =
      (emit (RefreshPost ''r1'') (logged_in\<lparr>isRefreshing := True\<rparr>), AwaitRefresh ?orig ''r1'')"
    using responseError_start [of ?first logged_in "''r1''"]
    by (simp add: logged_in_fields request_to_def)
  then have started: "snd (responseError ?first logged_in) = AwaitRefresh ?orig ''r1''"
    by simp
  from single_refresh_when_token_present
    [where s' = logged_in and error = ?first and originalRequest = ?orig and rt' = "''r1''",
      THEN conjunct2, THEN conjunct2, THEN conjunct2, THEN conjunct2, THEN mp, OF started]
  have gate_open: "\<not> isRefreshing logged_in \<and> isRefreshing ?s1
      \<and> trace ?s1 = [RefreshPost ''r1'']"
    by (simp add: logged_in_fields)
  then have set: "isRefreshing ?s1"
    by simp
  from single_refresh_when_token_present
    [where s' = ?s1 and error = "unauthorized (request_to ''/b'')",
      THEN conjunct2, THEN conjunct2, THEN conjunct2, THEN conjunct1, THEN mp, OF set]
  have gate_shut: "refreshCalls (trace (fst (responseError (unauthorized (request_to ''/b'')) ?s1))) = 1"
    using gate_open by simp
  from burst started gate_open gate_shut show ?thesis
    by simp
qed

text \<open>
  C1, counterexample to the claim as stated for every such sequence. With no refresh
  token in the store, two requests that fail with 401 while no refresh is in progress
  cause no refresh call at all: the first failure is propagated (the no-refresh-token
  branch), the second is queued. And with a refresh token in the store, two requests
  that each fail with 401 while no refresh is in progress, the second after the refresh
  started by the first has settled, cause two refresh calls.
\<close>

theorem refresh_calls_zero_or_two:
  "refreshCalls (trace (fst (handleAll
      [unauthorized (request_to ''/a''), unauthorized (request_to ''/b'')]
      (initial_state (setToken ''a1'' Map.empty) ''/dashboard'')))) = 0
   \<and> snd (handleAll
      [unauthorized (request_to ''/a''), unauthorized (request_to ''/b'')]
      (initial_state (setToken ''a1'' Map.empty) ''/dashboard'')) =
     [Propagate (unauthorized ((request_to ''/a'')\<lparr>retry_mark := True\<rparr>)), Enqueued]
   \<and> refreshCalls (trace (fst (run
      [Fails (unauthorized (request_to ''/a'')),
       Settles (RefreshOk \<lparr>token = ''a2'', refreshToken = None\<rparr>),
       Fails (unauthorized (request_to ''/c''))]
      (logged_in, [])))) = 2"
  by (simp add: run_def run_defs Let_def refreshSettled_def do_setToken_def emit_def
      processQueue_def apiClient_def resumeQueued_def requestInterceptor_def settle_def)

section \<open>The refresh flag on the path without a refresh token\<close>

text \<open>
  C2. The handler sets \<open>isRefreshing\<close> and, finding no refresh token, returns the
  rejection from before its \<open>try\<close> statement: the flag is still true when the caller
  gets the result, and the next request that fails with 401 is queued although no
  refresh call is in flight. (On the two paths through the \<open>try\<close> statement the flag is
  reset, see \<open>refreshSettled_idle\<close>.)
\<close>

theorem flag_stays_set_without_refresh_token:
  "case responseError (unauthorized (request_to ''/a''))
          (initial_state (setToken ''a1'' Map.empty) ''/dashboard'') of
     (s', res) \<Rightarrow>
       res = Propagate (unauthorized ((request_to ''/a'')\<lparr>retry_mark := True\<rparr>))
       \<and> isRefreshing s'
       \<and> snd (responseError (unauthorized (request_to ''/b'')) s') = Enqueued"
  by (simp add: run_defs Let_def)

section \<open>Life cycle of the pending queue\<close>

text \<open>
  C3. The pending queue starts empty. Handling a failed response either leaves it
  unchanged or appends the failing request's deferred completion at its end, and the
  latter only when \<open>isRefreshing\<close> is true. When the refresh call settles, the
  settlements added to the trace are exactly one per queued completion, in insertion
  order, all resolved with the new token on success and all rejected with the refresh
  error on failure, and the queue is empty afterwards.
\<close>

theorem queue_lifecycle:
  "failedQueue (initial_state ls href) = []
   \<and> (failedQueue (fst (responseError error s)) = failedQueue s
        \<or> (isRefreshing s
            \<and> failedQueue (fst (responseError error s)) = failedQueue s @ [err_config error]))
   \<and> failedQueue (fst (refreshSettled orig r s)) = []
   \<and> settlements (trace (fst (refreshSettled orig (RefreshOk d) s))) =
       settlements (trace s) @ map (\<lambda>q. Resolve q (Some (token d))) (failedQueue s)
   \<and> settlements (trace (fst (refreshSettled orig (RefreshFailed e) s))) =
       settlements (trace s) @ map (\<lambda>q. Reject q e) (failedQueue s)"
proof -
  have start: "failedQueue (initial_state ls href) = []"
    by (simp add: initial_state_def)
  have grow: "failedQueue (fst (responseError error s)) = failedQueue s
        \<or> (isRefreshing s
            \<and> failedQueue (fst (responseError error s)) = failedQueue s @ [err_config error])"
    by (simp add: responseError_def noRefreshToken_def Let_def split: option.splits)
  have drained: "failedQueue (fst (refreshSettled orig r s)) = []"
    by (cases r) (simp_all add: refreshSettled_ok_fields refreshSettled_failed_fields)
  have ok: "settlements (trace (fst (refreshSettled orig (RefreshOk d) s))) =
       settlements (trace s) @ map (\<lambda>q. Resolve q (Some (token d))) (failedQueue s)"
    by (simp add: refreshSettled_ok_fields(1))
  have failed: "settlements (trace (fst (refreshSettled orig (RefreshFailed e) s))) =
       settlements (trace s) @ map (\<lambda>q. Reject q e) (failedQueue s)"
    by (simp add: refreshSettled_failed_fields(1))
  from start grow drained ok failed show ?thesis
    by blast
qed

section \<open>A second 401 for a request released from the queue\<close>

text \<open>
  C4. In the run \<open>after_refresh\<close> the request to \<open>/b\<close> was queued, released and
  re-issued with the new token, and it does not carry the retry marker: the queue
  branch returns before the marker is set. When the re-issued request fails with 401
  again, the handler does not propagate the failure; it starts a second refresh cycle
  (a second refresh call, flag set). The request to \<open>/a\<close>, which started the first
  cycle and is marked, has its second 401 propagated unchanged with no state change
  (in general: \<open>responseError_marked\<close>).
\<close>

theorem released_request_second_401_refreshes_again:
  "trace after_refresh =
     [RefreshPost ''r1'', SetItem ''auth_token'' ''a2'',
      Resolve (request_to ''/b'') (Some ''a2''),
      Dispatch (with_bearer ''a2'' ((request_to ''/a'')\<lparr>retry_mark := True\<rparr>)),
      Dispatch (with_bearer ''a2'' (request_to ''/b''))]
   \<and> \<not> isRefreshing after_refresh
   \<and> \<not> retry_mark (with_bearer ''a2'' (request_to ''/b''))
   \<and> (case responseError (unauthorized (with_bearer ''a2'' (request_to ''/b''))) after_refresh of
        (s', res) \<Rightarrow>
          res = AwaitRefresh ((with_bearer ''a2'' (request_to ''/b''))\<lparr>retry_mark := True\<rparr>) ''r1''
          \<and> refreshCalls (trace s') = 2
          \<and> isRefreshing s')
   \<and> (case responseError
             (unauthorized (with_bearer ''a2'' ((request_to ''/a'')\<lparr>retry_mark := True\<rparr>)))
             after_refresh of
        (s', res) \<Rightarrow>
          res = Propagate
                  (unauthorized (with_bearer ''a2'' ((request_to ''/a'')\<lparr>retry_mark := True\<rparr>)))
          \<and> refreshCalls (trace s') = 1
          \<and> \<not> isRefreshing s')"
proof -
  let ?b = "with_bearer ''a2'' (request_to ''/b'')"
  let ?a = "with_bearer ''a2'' ((request_to ''/a'')\<lparr>retry_mark := True\<rparr>)"
  have unmarked: "\<not> retry_mark ?b"
    by (simp add: with_bearer_def request_to_def)
  have marked: "retry_mark ?a"
    by (simp add: with_bearer_def request_to_def)
  have "status_of (unauthorized ?b) = Some 401" "\<not> retry_mark (err_config (unauthorized ?b))"
    using unmarked by simp_all
  then have again: "responseError (unauthorized ?b) after_refresh =
      (emit (RefreshPost ''r1'') (after_refresh\<lparr>isRefreshing := True\<rparr>),
       AwaitRefresh ((err_config (unauthorized ?b))\<lparr>retry_mark := True\<rparr>) ''r1'')"
    by (rule responseError_start) (simp_all add: after_refresh_fields)
  have "retry_mark (err_config (unauthorized ?a))"
    using marked by simp
  then have stop: "responseError (unauthorized ?a) after_refresh =
      (after_refresh, Propagate (unauthorized ?a))"
    by (rule responseError_marked)
  show ?thesis
    unfolding again stop
    using unmarked by (simp add: after_refresh_fields)
qed

section \<open>Refresh success: the store is written before the queue is released\<close>

text \<open>
  C5. When the refresh call succeeds with a new access token (a token in the client's
  sense, that is a non-empty string, as \<open>hasToken\<close> and the request interceptor test
  it), the effects of the handler are, in this order: the new access token is written
  to the store; the new refresh token is written if the response has one
  (\<open>refresh_token_writes\<close>); every queued completion is resolved, in queue order; the
  original request and then every released request is handed to the transport with
  \<open>Authorization: Bearer\<close> and the new access token. The store holds the new access
  token afterwards, and the new refresh token if there was one, the old one otherwise.
\<close>

theorem refresh_success_store_before_release:
  assumes "token d \<noteq> []"
  shows "case refreshSettled orig (RefreshOk d) s of
           (s', res) \<Rightarrow>
             trace s' =
               trace s @ [SetItem TOKEN_STORAGE_KEY (token d)] @ refresh_token_writes d
                 @ map (\<lambda>q. Resolve q (Some (token d))) (failedQueue s)
                 @ map (\<lambda>q. Dispatch (with_bearer (token d) q)) (orig # failedQueue s)
             \<and> (\<forall>q \<in> set (orig # failedQueue s).
                   headers (with_bearer (token d) q) ''Authorization''
                     = Some (''Bearer '' @ token d))
             \<and> getToken (localStorage s') = Some (token d)
             \<and> getRefreshToken (localStorage s') =
                 (if truthy (refreshToken d) then refreshToken d
                  else getRefreshToken (localStorage s))
             \<and> res = Reissued (with_bearer (token d) orig)"
proof -
  obtain s' res where eq: "refreshSettled orig (RefreshOk d) s = (s', res)"
    by (cases "refreshSettled orig (RefreshOk d) s")
  have s': "s' = fst (refreshSettled orig (RefreshOk d) s)"
    by (simp add: eq)
  have tr: "trace s' =
               trace s @ [SetItem TOKEN_STORAGE_KEY (token d)] @ refresh_token_writes d
                 @ map (\<lambda>q. Resolve q (Some (token d))) (failedQueue s)
                 @ map (\<lambda>q. Dispatch (with_bearer (token d) q)) (orig # failedQueue s)"
    unfolding s' using assms by (rule refreshSettled_ok_trace)
  have hd: "\<forall>q \<in> set (orig # failedQueue s).
      headers (with_bearer (token d) q) ''Authorization'' = Some (''Bearer '' @ token d)"
    by (simp add: with_bearer_def bearer_def)
  have tok: "getToken (localStorage s') = Some (token d)"
    unfolding s' by (rule refreshSettled_ok_fields)
  have rtok: "getRefreshToken (localStorage s') =
                 (if truthy (refreshToken d) then refreshToken d
                  else getRefreshToken (localStorage s))"
    unfolding s' by (rule refreshSettled_ok_refresh_token)
  have "res = snd (refreshSettled orig (RefreshOk d) s)"
    by (simp add: eq)
  also have "\<dots> = Reissued (requestInterceptor (localStorage s') (with_bearer (token d) orig))"
    unfolding s'
    by (cases "refreshToken d") (simp_all add: refreshSettled_def Let_def with_bearer_def)
  also have "\<dots> = Reissued (with_bearer (token d) orig)"
    using tok assms by (simp add: requestInterceptor_present)
  finally have "res = Reissued (with_bearer (token d) orig)" .
  with tr hd tok rtok show ?thesis
    by (simp add: eq)
qed

text \<open>
  C5, witness: one request, sent with the old token \<open>a1\<close>, is queued behind the request
  to \<open>/a\<close>; the refresh call returns the tokens \<open>a2\<close> and \<open>r2\<close>.
\<close>

theorem refresh_success_store_before_release_witness:
  "case refreshSettled ((request_to ''/a'')\<lparr>retry_mark := True\<rparr>)
          (RefreshOk \<lparr>token = ''a2'', refreshToken = Some ''r2''\<rparr>)
          \<lparr>localStorage = with_tokens ''a1'' ''r1'', isRefreshing = True,
            failedQueue = [with_bearer ''a1'' (request_to ''/b'')],
            location_href = ''/dashboard'', trace = [RefreshPost ''r1'']\<rparr> of
     (s', res) \<Rightarrow>
       trace s' =
         [RefreshPost ''r1'', SetItem ''auth_token'' ''a2'', SetItem ''refresh_token'' ''r2'',
          Resolve (with_bearer ''a1'' (request_to ''/b'')) (Some ''a2''),
          Dispatch (with_bearer ''a2'' ((request_to ''/a'')\<lparr>retry_mark := True\<rparr>)),
          Dispatch (with_bearer ''a2'' (request_to ''/b''))]
       \<and> headers (with_bearer ''a2'' (request_to ''/b'')) ''Authorization'' = Some ''Bearer a2''
       \<and> getToken (localStorage s') = Some ''a2''
       \<and> getRefreshToken (localStorage s') = Some ''r2''
       \<and> res = Reissued (with_bearer ''a2'' ((request_to ''/a'')\<lparr>retry_mark := True\<rparr>))"
proof -
  have nonempty: "token \<lparr>token = ''a2'', refreshToken = Some ''r2''\<rparr> \<noteq> []"
    by simp
  from refresh_success_store_before_release
    [where d = "\<lparr>token = ''a2'', refreshToken = Some ''r2''\<rparr>"
       and orig = "(request_to ''/a'')\<lparr>retry_mark := True\<rparr>"
       and s = "\<lparr>localStorage = with_tokens ''a1'' ''r1'', isRefreshing = True,
            failedQueue = [with_bearer ''a1'' (request_to ''/b'')],
            location_href = ''/dashboard'', trace = [RefreshPost ''r1'']\<rparr>",
      OF nonempty]
  show ?thesis
    by (simp add: refresh_token_writes_def TOKEN_STORAGE_KEY_def REFRESH_TOKEN_STORAGE_KEY_def
        with_bearer_def bearer_def split: prod.splits)
qed

section \<open>No refresh token: terminal failure\<close>

text \<open>
  C6. When the handler deals with a 401 in the idle state (the request does not carry
  the retry marker, \<open>isRefreshing\<close> is false) and no refresh token is present in the
  store (none stored, or the empty string), it makes no refresh call and re-issues
  nothing: its only effects are the removal of both tokens and the redirect to
  \<open>/login\<close>, and the caller gets the original error object, whose request
  configuration has been given the retry marker on the way. The queue is untouched.
\<close>

theorem no_refresh_token_terminal:
  assumes "status_of error = Some 401"
    and "\<not> retry_mark (err_config error)"
    and "\<not> isRefreshing s"
    and "\<not> truthy (getRefreshToken (localStorage s))"
  shows "case responseError error s of
           (s', res) \<Rightarrow>
             res = Propagate (error\<lparr>err_config := (err_config error)\<lparr>retry_mark := True\<rparr>\<rparr>)
             \<and> trace s' = trace s @ [RemoveItem TOKEN_STORAGE_KEY,
                                     RemoveItem REFRESH_TOKEN_STORAGE_KEY,
                                     Navigate ''/login'']
             \<and> refreshCalls (trace s') = refreshCalls (trace s)
             \<and> getToken (localStorage s') = None
             \<and> getRefreshToken (localStorage s') = None
             \<and> location_href s' = ''/login''
             \<and> failedQueue s' = failedQueue s"
  using assms
  by (simp add: responseError_no_token refreshCalls_def is_refresh_call_def)

text \<open>
  C6, witness: a 401 for the request to \<open>/a\<close> with only an access token stored.
\<close>

theorem no_refresh_token_terminal_witness:
  "case responseError (unauthorized (request_to ''/a''))
          (initial_state (setToken ''a1'' Map.empty) ''/dashboard'') of
     (s', res) \<Rightarrow>
       res = Propagate (unauthorized ((request_to ''/a'')\<lparr>retry_mark := True\<rparr>))
       \<and> trace s' = [RemoveItem ''auth_token'', RemoveItem ''refresh_token'', Navigate ''/login'']
       \<and> getToken (localStorage s') = None
       \<and> location_href s' = ''/login''"
  using no_refresh_token_terminal [of "unauthorized (request_to ''/a'')"
      "initial_state (setToken ''a1'' Map.empty) ''/dashboard''"]
  by (simp add: unauthorized_def request_to_def initial_state_def status_of_def
      getRefreshToken_def setToken_def TOKEN_STORAGE_KEY_def REFRESH_TOKEN_STORAGE_KEY_def
      split: prod.splits)

section \<open>Error normalisation\<close>

text \<open>
  C7, counterexample to the claim as stated for every input error: an \<open>Error\<close> that is
  not an Axios error and has the empty message is normalised to the empty message,
  where the stated preference order ends in a generic string (either of the two generic
  strings of the source).
\<close>

theorem plain_error_empty_message:
  "message (handleApiError (Error [])) = []
   \<and> claimed_message ''An unexpected error occurred'' (Error []) = ''An unexpected error occurred''
   \<and> claimed_message ''An unknown error occurred'' (Error []) = ''An unknown error occurred''"
  by (simp add: handleApiError_def claimed_message_def backend_message_def backend_error_def
      transport_message_def)

text \<open>
  C7, as amended. For every Axios error the message is chosen by the stated preference
  order, skipping candidates that are absent or empty: the response body's \<open>message\<close>,
  else its \<open>error\<close>, else the Axios error's own message, else \<open>An unexpected error
  occurred\<close>; so it is never empty. The status is the response's status, and is absent
  exactly when there is no response: a timeout gives no status and a non-empty message.
  For an \<open>Error\<close> that is not an Axios error the message is that error's message as it
  is, with no status; for any other value it is \<open>An unknown error occurred\<close>, with no
  status.
\<close>

theorem handleApiError_message_and_status:
  "message (handleApiError (AxiosError e)) =
     claimed_message ''An unexpected error occurred'' (AxiosError e)
   \<and> message (handleApiError (AxiosError e)) \<noteq> []
   \<and> status (handleApiError (AxiosError e)) = map_option resp_status (err_response e)
   \<and> (status (handleApiError (AxiosError e)) = None \<longleftrightarrow> err_response e = None)
   \<and> handleApiError (Error m) = \<lparr>message = m, status = None, code = None, details = None\<rparr>
   \<and> handleApiError NotAnError =
       \<lparr>message = ''An unknown error occurred'', status = None, code = None, details = None\<rparr>"
proof -
  have msg: "message (handleApiError (AxiosError e)) =
     claimed_message ''An unexpected error occurred'' (AxiosError e)"
    by (simp add: handleApiError_def claimed_message_def backend_message_def backend_error_def
        transport_message_def or_chain_first_nonempty)
  have "claimed_message ''An unexpected error occurred'' (AxiosError e) \<noteq> []"
    unfolding claimed_message_def by (rule first_nonempty_nonempty) simp
  with msg have nonempty: "message (handleApiError (AxiosError e)) \<noteq> []"
    by simp
  have st: "status (handleApiError (AxiosError e)) = map_option resp_status (err_response e)"
    by (simp add: handleApiError_def status_of_def)
  then have st_iff: "status (handleApiError (AxiosError e)) = None \<longleftrightarrow> err_response e = None"
    by simp
  have plain: "handleApiError (Error m) = \<lparr>message = m, status = None, code = None, details = None\<rparr>"
    and other: "handleApiError NotAnError =
       \<lparr>message = ''An unknown error occurred'', status = None, code = None, details = None\<rparr>"
    by (simp_all add: handleApiError_def)
  from msg nonempty st st_iff plain other show ?thesis
    by blast
qed

section \<open>Request interceptor and login\<close>

text \<open>
  C8. When an access token is present in the token store (\<open>hasToken\<close>), the request
  interceptor returns the request with \<open>Authorization: Bearer\<close> and the stored token,
  and nothing else changed; when none is present it returns the request unchanged. The
  interceptor always returns a request. After a login whose response carries an access
  token and a refresh token, both are stored and every request passing the interceptor
  carries the stored access token as its bearer header.
\<close>

theorem request_interceptor_bearer:
  "(hasToken ls \<and> getToken ls = Some tok \<longrightarrow>
      requestInterceptor ls config = with_bearer tok config
      \<and> headers (requestInterceptor ls config) ''Authorization'' = Some (''Bearer '' @ tok)
      \<and> url (requestInterceptor ls config) = url config
      \<and> retry_mark (requestInterceptor ls config) = retry_mark config)
   \<and> (\<not> hasToken ls \<longrightarrow> requestInterceptor ls config = config)
   \<and> (t \<noteq> [] \<and> r \<noteq> [] \<longrightarrow>
        (case loginWithToken (LoginOk (Some \<lparr>auth_token = Some t, auth_refreshToken = Some r\<rparr>)) ls of
           (ls', res) \<Rightarrow>
             getToken ls' = Some t \<and> getRefreshToken ls' = Some r
             \<and> res = Inr (Some \<lparr>auth_token = Some t, auth_refreshToken = Some r\<rparr>)
             \<and> headers (requestInterceptor ls' config) ''Authorization'' = Some (''Bearer '' @ t)))"
proof -
  have present: "requestInterceptor ls config = with_bearer tok config
      \<and> headers (requestInterceptor ls config) ''Authorization'' = Some (''Bearer '' @ tok)
      \<and> url (requestInterceptor ls config) = url config
      \<and> retry_mark (requestInterceptor ls config) = retry_mark config"
    if "hasToken ls \<and> getToken ls = Some tok"
  proof -
    from that have "getToken ls = Some tok" and "tok \<noteq> []"
      by (auto simp: hasToken_def)
    then show ?thesis
      by (simp add: requestInterceptor_present with_bearer_def bearer_def)
  qed
  have absent: "requestInterceptor ls config = config" if "\<not> hasToken ls"
    using that by (rule requestInterceptor_absent)
  have login: "case loginWithToken (LoginOk (Some \<lparr>auth_token = Some t, auth_refreshToken = Some r\<rparr>)) ls of
           (ls', res) \<Rightarrow>
             getToken ls' = Some t \<and> getRefreshToken ls' = Some r
             \<and> res = Inr (Some \<lparr>auth_token = Some t, auth_refreshToken = Some r\<rparr>)
             \<and> headers (requestInterceptor ls' config) ''Authorization'' = Some (''Bearer '' @ t)"
    if "t \<noteq> [] \<and> r \<noteq> []"
    using that
    by (simp add: loginWithToken_def requestInterceptor_present with_bearer_def bearer_def)
  from present absent login show ?thesis
    by blast
qed

text \<open>
  C8, witness: the store with the access token \<open>a1\<close>, the empty store, and the empty
  store after a login that returns \<open>a1\<close> and \<open>r1\<close>.
\<close>

theorem request_interceptor_bearer_witness:
  "hasToken (setToken ''a1'' Map.empty)
   \<and> headers (requestInterceptor (setToken ''a1'' Map.empty) (request_to ''/api/v1/warehouses''))
        ''Authorization'' = Some ''Bearer a1''
   \<and> \<not> hasToken Map.empty
   \<and> requestInterceptor Map.empty (request_to ''/api/v1/warehouses'') = request_to ''/api/v1/warehouses''
   \<and> headers (requestInterceptor
        (fst (loginWithToken (LoginOk (Some \<lparr>auth_token = Some ''a1'', auth_refreshToken = Some ''r1''\<rparr>))
           Map.empty))
        (request_to ''/api/v1/warehouses'')) ''Authorization'' = Some ''Bearer a1''"
proof -
  let ?ls = "setToken ''a1'' Map.empty"
  let ?c = "request_to ''/api/v1/warehouses''"
  have present: "hasToken ?ls \<and> getToken ?ls = Some ''a1''"
    by (simp add: hasToken_def)
  have absent: "\<not> hasToken Map.empty"
    by (simp add: hasToken_def getToken_def)
  have nonempty: "''a1'' \<noteq> [] \<and> ''r1'' \<noteq> []"
    by simp
  from present request_interceptor_bearer [of ?ls "''a1''" ?c "''a1''" "''r1''"]
  have "headers (requestInterceptor ?ls ?c) ''Authorization'' = Some (''Bearer '' @ ''a1'')"
    by blast
  then have 1: "headers (requestInterceptor ?ls ?c) ''Authorization'' = Some ''Bearer a1''"
    by simp
  from absent request_interceptor_bearer [of Map.empty "''a1''" ?c "''a1''" "''r1''"]
  have 2: "requestInterceptor Map.empty ?c = ?c"
    by blast
  from nonempty request_interceptor_bearer [of Map.empty "''a1''" ?c "''a1''" "''r1''"]
  have 3: "headers (requestInterceptor
        (fst (loginWithToken (LoginOk (Some \<lparr>auth_token = Some ''a1'', auth_refreshToken = Some ''r1''\<rparr>))
           Map.empty)) ?c) ''Authorization'' = Some ''Bearer a1''"
    by (simp add: case_prod_beta)
  from present absent 1 2 3 show ?thesis
    by blast
qed

section \<open>Query and mutation defaults\<close>

text \<open>
  C9. Query results are fresh for 60 seconds and collected after 5 minutes without
  use; a failed query is retried once; the retry delay starts at 1000 ms, doubles with
  each attempt and is capped at 30000 ms; queries are refetched on reconnect and on
  mount, not on window focus; mutations are not retried.
\<close>

theorem query_defaults_policy:
  "staleTime (queries defaultOptions) = 60 * 1000
   \<and> gcTime (queries defaultOptions) = 5 * 60 * 1000
   \<and> retry (queries defaultOptions) = 1
   \<and> retryDelay (queries defaultOptions) 0 = 1000
   \<and> retryDelay (queries defaultOptions) (Suc i) =
       min (2 * retryDelay (queries defaultOptions) i) 30000
   \<and> retryDelay (queries defaultOptions) i \<le> 30000
   \<and> refetchOnReconnect (queries defaultOptions)
   \<and> refetchOnMount (queries defaultOptions)
   \<and> \<not> refetchOnWindowFocus (queries defaultOptions)
   \<and> retry (mutations defaultOptions) = 0"
  by (simp add: defaultOptions_def)

section \<open>Token store: presence of the access token\<close>

text \<open>
  C10. \<open>hasToken()\<close>, and with it \<open>isAuthenticated()\<close>, is true exactly when the stored
  access token is a non-null, non-empty string. With the empty string stored under the
  access-token key the entry is present in storage and \<open>hasToken()\<close> is false.
\<close>

theorem hasToken_iff_nonempty:
  "(hasToken ls \<longleftrightarrow> (\<exists>t. getToken ls = Some t \<and> t \<noteq> []))
   \<and> (isAuthenticated ls \<longleftrightarrow> hasToken ls)
   \<and> TOKEN_STORAGE_KEY \<in> dom (setToken [] ls)
   \<and> getToken (setToken [] ls) = Some []
   \<and> \<not> hasToken (setToken [] ls)
   \<and> \<not> isAuthenticated (setToken [] ls)"
  by (simp add: hasToken_def isAuthenticated_def truthy_iff getToken_def setToken_def)

end
